theory Spec2Isabelle
  imports Complex_Main
begin

section \<open>Python values, dictionaries and exceptions\<close>

text \<open>
  The provider results and the breaker's fast-fail value are Python dictionaries with
  string keys. Their values are strings or numbers. Seconds are real numbers: the
  comparisons of the source are taken exactly, without floating-point rounding.
\<close>

datatype pyval = Str string | Num real

type_synonym dict = "(string \<times> pyval) list"

definition dict_get :: "dict \<Rightarrow> string \<Rightarrow> pyval \<Rightarrow> pyval" where
  "dict_get d k dflt = (case map_of d k of None \<Rightarrow> dflt | Some v \<Rightarrow> v)"

text \<open>
  The exception classes that occur: \<open>NameError\<close> is raised by the interpreter for an
  unbound global, \<open>AttributeError\<close> for a method that an object does not have,
  \<open>Timeout\<close> is a subclass of \<open>RequestException\<close>, \<open>OperationalError\<close> stands for the
  errors of sqlite3. Each carries its message.
\<close>

datatype exn_class =
  NameError | AttributeError | RequestException | Timeout | ValueError | KeyError
| OperationalError | RuntimeError

datatype exn = Exn exn_class string

section \<open>The circuit breaker (error\_handler.py)\<close>

datatype cb_state = Closed | Open | HalfOpen

record circuit_breaker =
  name :: string
  failure_threshold :: int
  reset_timeout :: real
  failures :: int
  state :: cb_state
  last_failure_time :: real

text \<open>\<open>CircuitBreaker.__init__\<close> with its defaults \<open>failure_threshold=5\<close>, \<open>reset_timeout=60\<close>.\<close>

definition CircuitBreaker :: "string \<Rightarrow> circuit_breaker" where
  "CircuitBreaker nm =
     \<lparr>name = nm, failure_threshold = 5, reset_timeout = 60, failures = 0,
      state = Closed, last_failure_time = 0\<rparr>"

text \<open>
  \<open>execute\<close> reads the clock as \<open>time.time()\<close>. The argument \<open>tm\<close> is what the global
  name \<open>time\<close> of the module gives: \<open>Some t\<close> when it is bound to a clock that reads
  \<open>t\<close>, \<open>None\<close> when it is unbound, and then the read raises \<open>NameError\<close>.
\<close>

definition time_time :: "real option \<Rightarrow> exn + real" where
  "time_time tm =
     (case tm of
        None \<Rightarrow> Inl (Exn NameError ''name 'time' is not defined'')
      | Some t \<Rightarrow> Inr t)"

text \<open>
  error\_handler.py imports \<open>flask.jsonify\<close>, \<open>logging\<close>, \<open>traceback\<close> and \<open>requests\<close>
  (lines 6 to 9) and nothing else: \<open>time\<close> is unbound in the module as it is written,
  whatever the wall clock \<open>now\<close> shows.
\<close>

definition error_handler_time :: "real \<Rightarrow> real option" where
  "error_handler_time now = None"

text \<open>The dictionary returned at lines 109 to 113.\<close>

definition unavailable :: "string \<Rightarrow> dict" where
  "unavailable nm =
     [(''error'', Str ''Service unavailable''),
      (''message'', Str (''The '' @ nm @ '' service is currently unavailable. Please try again later.'')),
      (''status'', Str ''error'')]"

text \<open>
  The result of \<open>execute\<close>: what the caller gets (\<open>Inl\<close> a raised exception, \<open>Inr\<close> a
  returned value), the breaker after the call, and how many times the wrapped
  function was invoked.
\<close>

record exec_result =
  outcome :: "exn + dict"
  breaker :: circuit_breaker
  invocations :: nat

text \<open>
  Lines 126 to 137, the \<open>except\<close> block. The counter is incremented first; the clock is
  read next, and an exception raised there leaves the block at once, before the
  threshold is compared and in place of the \<open>raise e\<close>.
\<close>

definition on_failure :: "real option \<Rightarrow> circuit_breaker \<Rightarrow> exn \<Rightarrow> exn \<times> circuit_breaker" where
  "on_failure tm b e =
     (let b1 = b\<lparr>failures := failures b + 1\<rparr> in
      case time_time tm of
        Inl ne \<Rightarrow> (ne, b1)
      | Inr t \<Rightarrow>
          (let b2 = b1\<lparr>last_failure_time := t\<rparr>;
               b3 = (if failures b2 \<ge> failure_threshold b2 then b2\<lparr>state := Open\<rparr> else b2)
           in (e, b3)))"

text \<open>Lines 118 to 124, after the wrapped function has returned.\<close>

definition on_success :: "circuit_breaker \<Rightarrow> circuit_breaker" where
  "on_success b = (if state b = HalfOpen then b\<lparr>state := Closed, failures := 0\<rparr> else b)"

text \<open>
  Lines 115 to 137, the \<open>try\<close> statement. The argument \<open>f\<close> is what the one call of the
  wrapped function does: it raises (\<open>Inl\<close>) or returns a value (\<open>Inr\<close>).
\<close>

definition call_through :: "real option \<Rightarrow> circuit_breaker \<Rightarrow> exn + dict \<Rightarrow> exec_result" where
  "call_through tm b f =
     (case f of
        Inr r \<Rightarrow> \<lparr>outcome = Inr r, breaker = on_success b, invocations = 1\<rparr>
      | Inl e \<Rightarrow>
          (case on_failure tm b e of
             (e', b') \<Rightarrow> \<lparr>outcome = Inl e', breaker = b', invocations = 1\<rparr>))"

text \<open>
  \<open>CircuitBreaker.execute\<close>, lines 102 to 137. The clock read of line 104 is outside the
  \<open>try\<close>: an exception raised there goes to the caller with the breaker untouched.
\<close>

definition execute :: "real option \<Rightarrow> circuit_breaker \<Rightarrow> exn + dict \<Rightarrow> exec_result" where
  "execute tm b f =
     (if state b = Open then
        (case time_time tm of
           Inl ne \<Rightarrow> \<lparr>outcome = Inl ne, breaker = b, invocations = 0\<rparr>
         | Inr t \<Rightarrow>
             if t - last_failure_time b > reset_timeout b
             then call_through tm (b\<lparr>state := HalfOpen\<rparr>) f
             else \<lparr>outcome = Inr (unavailable (name b)), breaker = b, invocations = 0\<rparr>)
      else call_through tm b f)"

text \<open>A sequence of calls on one breaker, each with its own clock binding and call.\<close>

fun execute_all :: "circuit_breaker \<Rightarrow> (real option \<times> (exn + dict)) list \<Rightarrow> circuit_breaker" where
  "execute_all b [] = b"
| "execute_all b ((tm, f) # cs) = execute_all (breaker (execute tm b f)) cs"

section \<open>The rate limiter (rate\_limiter.py)\<close>

text \<open>One entry of \<open>rate_limit_store\<close>, a dictionary keyed by the user id.\<close>

record window =
  requests :: int
  window_start :: real

type_synonym rate_limit_store = "int \<rightharpoonup> window"

text \<open>
  \<open>get_user_tier\<close> of rate\_limiter.py, lines 83 to 104: the tier is a fixed function of the
  user id. The decorator calls this one, not the database lookup of db.py.
\<close>

definition get_user_tier :: "int \<Rightarrow> string" where
  "get_user_tier uid =
     (if uid = 1 then ''free''
      else if uid = 2 then ''admin''
      else if uid = 3 then ''pro''
      else if uid = 4 then ''enterprise''
      else ''free'')"

text \<open>Lines 37 to 48: \<open>(max_requests, time_window)\<close> of a tier.\<close>

definition tier_limits :: "string \<Rightarrow> int \<times> real" where
  "tier_limits tier =
     (if tier = ''free'' then (50, 3600)
      else if tier = ''pro'' then (500, 3600)
      else if tier = ''enterprise'' then (5000, 3600)
      else (10, 3600))"

text \<open>
  What the decorator decides: the wrapped route runs, or the 429 response of lines 68 to
  71 is returned, whose message names \<open>max_requests\<close> and the tier.
\<close>

datatype verdict = Admitted | Limited int string

text \<open>
  The body of \<open>decorated\<close>, lines 30 to 77, up to the call of the wrapped route. The two
  clock reads of one request (lines 54 and 58) are the same instant \<open>now\<close>. \<open>r1\<close> and
  \<open>r2\<close> are the entry of the user after the block of line 51 and after the block of
  line 59, which is what the lookups \<open>rate_limit_store[user_id]\<close> read.
\<close>

definition rate_limit :: "real \<Rightarrow> rate_limit_store \<Rightarrow> int \<Rightarrow> verdict \<times> rate_limit_store" where
  "rate_limit now store uid =
     (let tier = get_user_tier uid;
          max_requests = fst (tier_limits tier);
          time_window = snd (tier_limits tier);
          fresh = \<lparr>requests = 0, window_start = now\<rparr>;
          r1 = (case store uid of None \<Rightarrow> fresh | Some r \<Rightarrow> r);
          s1 = (case store uid of None \<Rightarrow> store(uid \<mapsto> fresh) | Some r \<Rightarrow> store);
          r2 = (if now - window_start r1 > time_window then fresh else r1);
          s2 = (if now - window_start r1 > time_window then s1(uid \<mapsto> fresh) else s1)
      in if requests r2 \<ge> max_requests then (Limited max_requests tier, s2)
         else (Admitted, s2(uid \<mapsto> r2\<lparr>requests := requests r2 + 1\<rparr>)))"

text \<open>
  The entry that line 66 compares with \<open>max_requests\<close>: the stored one, or a new one
  when the user has none or the window of the stored one is over.
\<close>

definition current_window :: "real \<Rightarrow> rate_limit_store \<Rightarrow> int \<Rightarrow> window" where
  "current_window now store uid =
     (let time_window = snd (tier_limits (get_user_tier uid));
          fresh = \<lparr>requests = 0, window_start = now\<rparr>;
          r1 = (case store uid of None \<Rightarrow> fresh | Some r \<Rightarrow> r)
      in if now - window_start r1 > time_window then fresh else r1)"

text \<open>No stored count is above the limit of its user's tier.\<close>

definition within_limits :: "rate_limit_store \<Rightarrow> bool" where
  "within_limits store =
     (\<forall>uid r. store uid = Some r \<longrightarrow> requests r \<le> fst (tier_limits (get_user_tier uid)))"

text \<open>A sequence of requests, each with its instant and its user; the store after them.\<close>

fun rate_limit_all :: "rate_limit_store \<Rightarrow> (real \<times> int) list \<Rightarrow> rate_limit_store" where
  "rate_limit_all store [] = store"
| "rate_limit_all store ((now, uid) # rs) = rate_limit_all (snd (rate_limit now store uid)) rs"

section \<open>The usage database (db.py, usage\_tracker.py)\<close>

text \<open>
  A row of the table \<open>usage\<close>. The timestamp is the instant of the insertion; ISO
  timestamps of one format compare as the instants do.
\<close>

record usage_row =
  u_user_id :: int
  u_provider :: string
  u_endpoint :: string
  u_timestamp :: real
  u_response_time :: pyval
  u_status :: pyval
  u_tokens :: "int option"

record database =
  users :: "int \<rightharpoonup> string"
  usage :: "usage_row list"

text \<open>
  Every function of the two modules opens its own connection. A fault says which sqlite3
  operation of one such function raises, if any.
\<close>

datatype db_fault = NoFault | ConnectFails | ExecuteFails | CommitFails | CloseFails

text \<open>\<open>get_user_tier\<close> of db.py, lines 119 to 144: connect, select, close; no commit.\<close>

definition db_get_user_tier :: "db_fault \<Rightarrow> database \<Rightarrow> int \<Rightarrow> string" where
  "db_get_user_tier fault d uid =
     (if fault = ConnectFails \<or> fault = ExecuteFails \<or> fault = CloseFails then ''free''
      else (case users d uid of Some tier \<Rightarrow> tier | None \<Rightarrow> ''free''))"

text \<open>
  \<open>check_usage_limits\<close>, usage\_tracker.py lines 274 to 313. \<open>month_start\<close> is the first
  instant of the current month.
\<close>

definition check_usage_limits :: "db_fault \<Rightarrow> db_fault \<Rightarrow> real \<Rightarrow> database \<Rightarrow> int \<Rightarrow> bool" where
  "check_usage_limits tier_fault count_fault month_start d uid =
     (let tier = db_get_user_tier tier_fault d uid in
      if count_fault = ConnectFails \<or> count_fault = ExecuteFails \<or> count_fault = CloseFails
      then False
      else
        (let usage_count =
               int (length (filter (\<lambda>r. u_user_id r = uid \<and> u_timestamp r \<ge> month_start) (usage d)))
         in if tier = ''free'' then usage_count < 50
            else if tier = ''pro'' then usage_count < 500
            else if tier = ''enterprise'' then True
            else usage_count < 10))"

text \<open>
  The \<open>try\<close> body of \<open>track_usage\<close>, lines 33 to 53: the exception it raises, if any, and
  the database after it. The row is in the table once the commit has returned.
\<close>

definition insert_usage :: "db_fault \<Rightarrow> database \<Rightarrow> usage_row \<Rightarrow> exn option \<times> database" where
  "insert_usage fault d row =
     (case fault of
        ConnectFails \<Rightarrow> (Some (Exn OperationalError ''unable to open database file''), d)
      | ExecuteFails \<Rightarrow> (Some (Exn OperationalError ''no such table: usage''), d)
      | CommitFails \<Rightarrow> (Some (Exn OperationalError ''database is locked''), d)
      | CloseFails \<Rightarrow>
          (Some (Exn OperationalError ''unable to close''), d\<lparr>usage := usage d @ [row]\<rparr>)
      | NoFault \<Rightarrow> (None, d\<lparr>usage := usage d @ [row]\<rparr>))"

text \<open>
  \<open>track_usage\<close>, lines 20 to 56: the handler of line 55 takes every exception of the
  body, logs it and falls off the end of the function.
\<close>

definition track_usage :: "db_fault \<Rightarrow> database \<Rightarrow> usage_row \<Rightarrow> (exn + unit) \<times> database" where
  "track_usage fault d row =
     (case insert_usage fault d row of
        (Some e, d') \<Rightarrow> (Inr (), d')
      | (None, d') \<Rightarrow> (Inr (), d'))"

section \<open>The dispatch route (app.py)\<close>

text \<open>
  What one request meets outside the process: the wall clock, the first instant of the
  month, the faults of its database connections, and what each provider's \<open>process\<close>
  does with a prompt when it is called.
\<close>

record env =
  now :: real
  month_start :: real
  tier_fault :: db_fault
  count_fault :: db_fault
  track_fault :: db_fault
  provider_process :: "string \<Rightarrow> string \<Rightarrow> exn + dict"

text \<open>The module-level state: the rate-limit store, the breakers, the database.\<close>

record world =
  rate_limit_store :: rate_limit_store
  circuit_breakers :: "string \<rightharpoonup> circuit_breaker"
  db :: database

text \<open>
  The authenticated request: \<open>current_user['id']\<close> and the JSON object of the body, with
  its optional key \<open>provider\<close>. A missing or empty prompt is the empty string.
\<close>

record request =
  user_id :: int
  prompt :: string
  provider :: "string option"

text \<open>The keys of \<open>PROVIDERS\<close> and of \<open>circuit_breakers\<close>, lines 65 to 80.\<close>

definition PROVIDERS :: "string list" where
  "PROVIDERS = [''openai'', ''anthropic'', ''google'', ''hunter'', ''github'']"

definition initial_breakers :: "string \<rightharpoonup> circuit_breaker" where
  "initial_breakers = map_of (map (\<lambda>p. (p, CircuitBreaker p)) PROVIDERS)"

text \<open>One constructor for each \<open>return\<close> of the route and of its decorator.\<close>

datatype response =
  RateLimitExceeded int string
| UsageLimitExceeded
| NoPrompt
| ProviderNotSupported string
| Json dict
| HandledError exn

text \<open>
  The HTTP status of a response. For \<open>handle_error\<close> (error\_handler.py lines 13 to 67)
  the first test takes \<open>Timeout\<close> too, which is a \<open>RequestException\<close>.
\<close>

fun status_code :: "response \<Rightarrow> nat" where
  "status_code (RateLimitExceeded m t) = 429"
| "status_code UsageLimitExceeded = 429"
| "status_code NoPrompt = 400"
| "status_code (ProviderNotSupported p) = 400"
| "status_code (Json d) = 200"
| "status_code (HandledError (Exn c msg)) =
     (if c = RequestException \<or> c = Timeout then 502
      else if c = ValueError then 400
      else if c = KeyError then 400
      else 500)"

text \<open>What a request did outside the state: provider calls made, \<open>track_usage\<close> calls made.\<close>

datatype event = ProviderCall string | TrackUsage usage_row

text \<open>The rows handed to \<open>track_usage\<close> and the providers called, in order.\<close>

fun tracked :: "event list \<Rightarrow> usage_row list" where
  "tracked [] = []"
| "tracked (TrackUsage row # evs) = row # tracked evs"
| "tracked (ProviderCall pn # evs) = tracked evs"


text \<open>
  Lines 117 to 130: the call through the breaker of the requested provider and, when
  that raises and the provider is not \<open>openai\<close>, the call through the breaker of
  \<open>openai\<close>. Both lookups in \<open>circuit_breakers\<close> raise \<open>KeyError\<close> on a missing key.
\<close>

definition protected_call ::
  "real option \<Rightarrow> env \<Rightarrow> (string \<rightharpoonup> circuit_breaker) \<Rightarrow> string \<Rightarrow> string \<Rightarrow>
     (exn + dict) \<times> (string \<rightharpoonup> circuit_breaker) \<times> event list" where
  "protected_call tm e cbs provider_name p =
     (case cbs provider_name of
        None \<Rightarrow> (Inl (Exn KeyError provider_name), cbs, [])
      | Some cb \<Rightarrow>
          (let x1 = execute tm cb (provider_process e provider_name p);
               cbs1 = cbs(provider_name \<mapsto> breaker x1);
               ev1 = replicate (invocations x1) (ProviderCall provider_name)
           in case outcome x1 of
                Inr result \<Rightarrow> (Inr result, cbs1, ev1)
              | Inl ex \<Rightarrow>
                  if provider_name \<noteq> ''openai'' then
                    (case cbs1 ''openai'' of
                       None \<Rightarrow> (Inl (Exn KeyError ''openai''), cbs1, ev1)
                     | Some ocb \<Rightarrow>
                         (let x2 = execute tm ocb (provider_process e ''openai'' p)
                          in (outcome x2, cbs1(''openai'' \<mapsto> breaker x2),
                              ev1 @ replicate (invocations x2) (ProviderCall ''openai''))))
                  else (Inl ex, cbs1, ev1)))"

text \<open>
  The function \<open>process_prompt\<close> as written, lines 97 to 145, before the decorators are
  applied. \<open>tm\<close> is the binding of \<open>time\<close> that \<open>CircuitBreaker.execute\<close> reads.
\<close>

definition process_prompt_body ::
  "real option \<Rightarrow> env \<Rightarrow> world \<Rightarrow> request \<Rightarrow> response \<times> world \<times> event list" where
  "process_prompt_body tm e w rq =
     (if \<not> check_usage_limits (tier_fault e) (count_fault e) (month_start e) (db w) (user_id rq)
      then (UsageLimitExceeded, w, [])
      else
        (let provider_name = (case provider rq of None \<Rightarrow> ''openai'' | Some pn \<Rightarrow> pn) in
         if prompt rq = [] then (NoPrompt, w, [])
         else if provider_name \<notin> set PROVIDERS then (ProviderNotSupported provider_name, w, [])
         else
           (case protected_call tm e (circuit_breakers w) provider_name (prompt rq) of
              (Inl ex, cbs, evs) \<Rightarrow> (HandledError ex, w\<lparr>circuit_breakers := cbs\<rparr>, evs)
            | (Inr result, cbs, evs) \<Rightarrow>
                (let row = \<lparr>u_user_id = user_id rq, u_provider = provider_name,
                            u_endpoint = ''process'', u_timestamp = now e,
                            u_response_time = dict_get result ''response_time'' (Num 0),
                            u_status = dict_get result ''status'' (Str ''error''),
                            u_tokens = None\<rparr>
                 in (Json result,
                     w\<lparr>circuit_breakers := cbs, db := snd (track_usage (track_fault e) (db w) row)\<rparr>,
                     evs @ [TrackUsage row])))))"

text \<open>
  The route \<open>/api/process\<close> behind \<open>@rate_limit\<close> (line 96): the decorator runs first and
  calls the function only when it admits the request.
\<close>

definition process_prompt ::
  "real option \<Rightarrow> env \<Rightarrow> world \<Rightarrow> request \<Rightarrow> response \<times> world \<times> event list" where
  "process_prompt tm e w rq =
     (case rate_limit (now e) (rate_limit_store w) (user_id rq) of
        (Limited m tier, s) \<Rightarrow> (RateLimitExceeded m tier, w\<lparr>rate_limit_store := s\<rparr>, [])
      | (Admitted, s) \<Rightarrow> process_prompt_body tm e (w\<lparr>rate_limit_store := s\<rparr>) rq)"

text \<open>
  What the provider modules fix about \<open>process\<close>, whatever the network does. In
  openai.py (lines 45 to 101), anthropic.py and google.py the whole body is a \<open>try\<close>
  whose handlers end with \<open>except Exception\<close>, and every \<open>return\<close> gives a dictionary
  whose entry \<open>provider\<close> is the name of the provider: the call never raises.
  \<open>HunterProvider\<close> and \<open>GitHubProvider\<close> define no method \<open>process\<close>: the call
  \<open>provider.process(prompt)\<close> of line 123 raises \<open>AttributeError\<close>.
\<close>

definition providers_as_written :: "env \<Rightarrow> bool" where
  "providers_as_written e =
     (\<forall>p.
        (\<exists>r. provider_process e ''openai'' p = Inr r \<and>
             map_of r ''provider'' = Some (Str ''openai'')) \<and>
        (\<exists>r. provider_process e ''anthropic'' p = Inr r \<and>
             map_of r ''provider'' = Some (Str ''anthropic'')) \<and>
        (\<exists>r. provider_process e ''google'' p = Inr r \<and>
             map_of r ''provider'' = Some (Str ''google'')) \<and>
        provider_process e ''hunter'' p =
          Inl (Exn AttributeError ''HunterProvider object has no attribute process'') \<and>
        provider_process e ''github'' p =
          Inl (Exn AttributeError ''GitHubProvider object has no attribute process''))"

text \<open>Every provider has its breaker, and every breaker is closed.\<close>

definition all_closed :: "(string \<rightharpoonup> circuit_breaker) \<Rightarrow> bool" where
  "all_closed cbs = (\<forall>pn \<in> set PROVIDERS. \<exists>b. cbs pn = Some b \<and> state b = Closed)"

section \<open>Properties of the circuit breaker\<close>

lemmas exec_defs = execute_def call_through_def on_failure_def on_success_def time_time_def Let_def

subsection \<open>What one call does, case by case\<close>

lemma execute_closed_success:
  "state b = Closed \<Longrightarrow> execute tm b (Inr r) = \<lparr>outcome = Inr r, breaker = b, invocations = 1\<rparr>"
  by (simp add: exec_defs)

lemma execute_half_open_success:
  "state b = HalfOpen \<Longrightarrow>
   execute tm b (Inr r) =
     \<lparr>outcome = Inr r, breaker = b\<lparr>state := Closed, failures := 0\<rparr>, invocations = 1\<rparr>"
  by (simp add: exec_defs)

lemma execute_open_waiting:
  "state b = Open \<Longrightarrow> t - last_failure_time b \<le> reset_timeout b \<Longrightarrow>
   execute (Some t) b f = \<lparr>outcome = Inr (unavailable (name b)), breaker = b, invocations = 0\<rparr>"
  by (simp add: exec_defs)

lemma execute_open_elapsed:
  "state b = Open \<Longrightarrow> t - last_failure_time b > reset_timeout b \<Longrightarrow>
   execute (Some t) b f = call_through (Some t) (b\<lparr>state := HalfOpen\<rparr>) f"
  by (simp add: exec_defs)

lemma call_through_invocations: "invocations (call_through tm b f) = 1"
  by (simp add: call_through_def split: sum.splits prod.splits)


text \<open>
  With \<open>time\<close> unbound, a failing call is counted, and the \<open>NameError\<close> of line 129
  replaces the exception of the call; the state is not changed.
\<close>

lemma execute_failure_unbound:
  "state b \<noteq> Open \<Longrightarrow>
   execute None b (Inl e) =
     \<lparr>outcome = Inl (Exn NameError ''name 'time' is not defined''),
      breaker = b\<lparr>failures := failures b + 1\<rparr>, invocations = 1\<rparr>"
  by (simp add: exec_defs)

lemma execute_failure_bound:
  "state b \<noteq> Open \<Longrightarrow>
   execute (Some t) b (Inl e) =
     \<lparr>outcome = Inl e,
      breaker = (if failures b + 1 \<ge> failure_threshold b
                 then b\<lparr>failures := failures b + 1, last_failure_time := t, state := Open\<rparr>
                 else b\<lparr>failures := failures b + 1, last_failure_time := t\<rparr>),
      invocations = 1\<rparr>"
  by (simp add: exec_defs)

lemma execute_unbound_never_opens:
  "state b \<noteq> Open \<Longrightarrow> state (breaker (execute None b f)) \<noteq> Open"
  by (cases f) (auto simp: exec_defs)

text \<open>With \<open>time\<close> unbound, a closed breaker stays closed whatever the call does.\<close>

lemma execute_unbound_closed_stays:
  "state b = Closed \<Longrightarrow> state (breaker (execute None b f)) = Closed"
  by (cases f) (auto simp: exec_defs)

subsection \<open>The invariant of the open state\<close>

text \<open>
  Whatever the binding of \<open>time\<close>, a call keeps the threshold, and an open breaker has
  counted at least as many failures as its threshold.
\<close>

lemma execute_threshold_const:
  "failure_threshold (breaker (execute tm b f)) = failure_threshold b"
  by (simp add: exec_defs split: sum.splits option.splits)

lemma execute_open_invariant:
  "(state b = Open \<longrightarrow> failures b \<ge> failure_threshold b) \<Longrightarrow>
   (state (breaker (execute tm b f)) = Open \<longrightarrow>
      failures (breaker (execute tm b f)) \<ge> failure_threshold (breaker (execute tm b f)))"
  by (cases "state b"; cases tm; cases f) (auto simp: exec_defs)

lemma execute_all_open_invariant:
  "(state b = Open \<longrightarrow> failures b \<ge> failure_threshold b) \<Longrightarrow>
   (state (execute_all b cs) = Open \<longrightarrow>
      failures (execute_all b cs) \<ge> failure_threshold (execute_all b cs))"
proof (induction cs arbitrary: b)
  case Nil
  then show ?case by simp
next
  case (Cons c cs)
  obtain tm f where c: "c = (tm, f)" by (cases c)
  from Cons.prems have "state (breaker (execute tm b f)) = Open \<longrightarrow>
      failures (breaker (execute tm b f)) \<ge> failure_threshold (breaker (execute tm b f))"
    by (rule execute_open_invariant)
  then show ?case unfolding c by (simp add: Cons.IH)
qed

text \<open>
  With \<open>time\<close> bound, a closed breaker opens on exactly the failing call that brings the
  counter to the threshold.
\<close>

lemma closed_to_open_bound:
  "state b = Closed \<Longrightarrow>
   (state (breaker (execute (Some t) b f)) = Open) =
     ((\<exists>e. f = Inl e) \<and> failures b + 1 \<ge> failure_threshold b)"
  by (cases f) (auto simp: exec_defs)

subsection \<open>C2: a success while the breaker is closed\<close>

text \<open>
  C2 as stated fails. The breaker of \<open>openai\<close> is closed with one failure counted after
  one failing call; the next call succeeds, and the counter is still 1 after it, with
  \<open>time\<close> unbound as in the module and with \<open>time\<close> bound alike.
\<close>

theorem closed_success_reset_counterexample:
  "state ((CircuitBreaker ''openai'')\<lparr>failures := 1\<rparr>) = Closed \<and>
   breaker (execute (error_handler_time 10) (CircuitBreaker ''openai'') (Inl (Exn Timeout ''timed out'')))
     = (CircuitBreaker ''openai'')\<lparr>failures := 1\<rparr> \<and>
   outcome (execute (error_handler_time 11) ((CircuitBreaker ''openai'')\<lparr>failures := 1\<rparr>)
              (Inr [(''status'', Str ''success'')])) = Inr [(''status'', Str ''success'')] \<and>
   failures (breaker (execute (error_handler_time 11) ((CircuitBreaker ''openai'')\<lparr>failures := 1\<rparr>)
              (Inr [(''status'', Str ''success'')]))) = 1 \<and>
   failures (breaker (execute (Some 11) ((CircuitBreaker ''openai'')\<lparr>failures := 1\<rparr>)
              (Inr [(''status'', Str ''success'')]))) = 1"
  by (simp add: exec_defs CircuitBreaker_def error_handler_time_def)

text \<open>
  C2, amended: for every breaker in state Closed and every call whose wrapped function
  succeeds, \<open>execute\<close> invokes the function once, returns its result and leaves the
  breaker as it was, the failure counter included; the counter is reset to 0 by a
  success in state HalfOpen, which closes the breaker.
\<close>

theorem success_bookkeeping:
  "(state b = Closed \<longrightarrow>
      execute tm b (Inr r) = \<lparr>outcome = Inr r, breaker = b, invocations = 1\<rparr>) \<and>
   (state b = HalfOpen \<longrightarrow>
      execute tm b (Inr r) =
        \<lparr>outcome = Inr r, breaker = b\<lparr>state := Closed, failures := 0\<rparr>, invocations = 1\<rparr>)"
  by (simp add: execute_closed_success execute_half_open_success)

theorem success_bookkeeping_witness:
  "state ((CircuitBreaker ''openai'')\<lparr>failures := 2\<rparr>) = Closed \<and>
   execute None ((CircuitBreaker ''openai'')\<lparr>failures := 2\<rparr>) (Inr []) =
     \<lparr>outcome = Inr [], breaker = (CircuitBreaker ''openai'')\<lparr>failures := 2\<rparr>, invocations = 1\<rparr> \<and>
   state ((CircuitBreaker ''openai'')\<lparr>failures := 5, state := HalfOpen\<rparr>) = HalfOpen \<and>
   failures (breaker (execute None ((CircuitBreaker ''openai'')\<lparr>failures := 5, state := HalfOpen\<rparr>) (Inr []))) = 0"
  using success_bookkeeping [of "(CircuitBreaker ''openai'')\<lparr>failures := 2\<rparr>" None "[]"]
        success_bookkeeping [of "(CircuitBreaker ''openai'')\<lparr>failures := 5, state := HalfOpen\<rparr>" None "[]"]
  by (simp add: CircuitBreaker_def)

subsection \<open>C6: the open breaker and its timeout\<close>

text \<open>
  C6: an open breaker refuses a call with the unavailable outcome while less than the
  timeout has elapsed since the last failure, and the first call made once the timeout
  has elapsed moves it to HalfOpen and is let through. In the module as written
  neither happens. The breaker of \<open>openai\<close> is open, its last failure was at 100 and
  its timeout is 60. At 130, before the timeout, the call raises \<open>NameError\<close> at the
  clock read of line 104 instead of returning the dictionary of lines 109 to 113. At
  160 and at 161, with the timeout reached and passed, it raises the same way: the
  function is not invoked and the state is still Open.
\<close>

theorem open_breaker_raises_whatever_the_clock:
  "execute (error_handler_time 130)
     ((CircuitBreaker ''openai'')\<lparr>failures := 5, state := Open, last_failure_time := 100\<rparr>)
     (Inr [(''status'', Str ''success'')])
   = \<lparr>outcome = Inl (Exn NameError ''name 'time' is not defined''),
      breaker = (CircuitBreaker ''openai'')\<lparr>failures := 5, state := Open, last_failure_time := 100\<rparr>,
      invocations = 0\<rparr> \<and>
   execute (error_handler_time 160)
     ((CircuitBreaker ''openai'')\<lparr>failures := 5, state := Open, last_failure_time := 100\<rparr>)
     (Inr [(''status'', Str ''success'')])
   = \<lparr>outcome = Inl (Exn NameError ''name 'time' is not defined''),
      breaker = (CircuitBreaker ''openai'')\<lparr>failures := 5, state := Open, last_failure_time := 100\<rparr>,
      invocations = 0\<rparr> \<and>
   execute (error_handler_time 161)
     ((CircuitBreaker ''openai'')\<lparr>failures := 5, state := Open, last_failure_time := 100\<rparr>)
     (Inr [(''status'', Str ''success'')])
   = \<lparr>outcome = Inl (Exn NameError ''name 'time' is not defined''),
      breaker = (CircuitBreaker ''openai'')\<lparr>failures := 5, state := Open, last_failure_time := 100\<rparr>,
      invocations = 0\<rparr>"
  by (simp add: exec_defs CircuitBreaker_def error_handler_time_def)

subsection \<open>C9: the fast-fail of the open breaker\<close>

text \<open>
  C9: an open breaker whose timeout has not elapsed returns the dictionary with status
  \<open>error\<close> and does not raise. In the module as written the call raises instead: the
  breaker of \<open>anthropic\<close> is open since 100, the wall clock shows 110, and \<open>execute\<close>
  leaves with \<open>NameError\<close> at the clock read of line 104, the function not invoked and
  the breaker unchanged.
\<close>

theorem open_fast_fail_raises:
  "execute (error_handler_time 110)
     ((CircuitBreaker ''anthropic'')\<lparr>failures := 5, state := Open, last_failure_time := 100\<rparr>)
     (Inr [(''status'', Str ''success'')])
   = \<lparr>outcome = Inl (Exn NameError ''name 'time' is not defined''),
      breaker = (CircuitBreaker ''anthropic'')\<lparr>failures := 5, state := Open, last_failure_time := 100\<rparr>,
      invocations = 0\<rparr>"
  by (simp add: exec_defs CircuitBreaker_def error_handler_time_def)

subsection \<open>C7: opening at the threshold\<close>

text \<open>
  C7: from the initial state, an open breaker has counted at least \<open>failureThreshold\<close>
  failures, and the breaker opens on the call that brings the counter to the threshold.
  The invariant holds (\<open>execute_all_open_invariant\<close>), the transition does not happen in
  the module as written: after five failing calls on a new breaker, whose threshold is
  5, the counter is 5 and the state is still Closed, because each \<open>except\<close> block is
  left at line 129 before the comparison of line 132.
\<close>

theorem breaker_never_opens:
  "execute_all (CircuitBreaker ''openai'')
     [(error_handler_time 1, Inl (Exn Timeout ''timed out'')),
      (error_handler_time 2, Inl (Exn Timeout ''timed out'')),
      (error_handler_time 3, Inl (Exn Timeout ''timed out'')),
      (error_handler_time 4, Inl (Exn Timeout ''timed out'')),
      (error_handler_time 5, Inl (Exn Timeout ''timed out''))]
   = (CircuitBreaker ''openai'')\<lparr>failures := 5\<rparr> \<and>
   state ((CircuitBreaker ''openai'')\<lparr>failures := 5\<rparr>) = Closed \<and>
   failures ((CircuitBreaker ''openai'')\<lparr>failures := 5\<rparr>)
     \<ge> failure_threshold ((CircuitBreaker ''openai'')\<lparr>failures := 5\<rparr>)"
  by (simp add: exec_defs CircuitBreaker_def error_handler_time_def)

section \<open>Properties of the rate limiter\<close>

subsection \<open>One request, and the invariant of the store\<close>

lemma tier_limits_positive: "0 < fst (tier_limits tier)"
  by (simp add: tier_limits_def)

lemma tier_limits_window: "snd (tier_limits tier) = 3600"
  by (simp add: tier_limits_def)

lemma rate_limit_rejects:
  "requests (current_window t store uid) \<ge> fst (tier_limits (get_user_tier uid)) \<Longrightarrow>
   rate_limit t store uid =
     (Limited (fst (tier_limits (get_user_tier uid))) (get_user_tier uid), store)"
  using tier_limits_positive [of "get_user_tier uid"]
  by (auto simp: rate_limit_def current_window_def Let_def split: option.splits if_splits)

lemma rate_limit_admits:
  "requests (current_window t store uid) < fst (tier_limits (get_user_tier uid)) \<Longrightarrow>
   rate_limit t store uid =
     (Admitted, store(uid \<mapsto> (current_window t store uid)
                        \<lparr>requests := requests (current_window t store uid) + 1\<rparr>))"
  by (auto simp: rate_limit_def current_window_def Let_def split: option.splits if_splits)

lemma current_window_within:
  "within_limits store \<Longrightarrow>
   requests (current_window t store uid) \<le> fst (tier_limits (get_user_tier uid))"
  using tier_limits_positive [of "get_user_tier uid"]
  by (auto simp: within_limits_def current_window_def Let_def split: option.splits)

lemma rate_limit_within:
  assumes "within_limits store"
  shows "within_limits (snd (rate_limit t store uid))"
proof (cases "requests (current_window t store uid) \<ge> fst (tier_limits (get_user_tier uid))")
  case True
  then show ?thesis using assms by (simp add: rate_limit_rejects)
next
  case False
  then have lt: "requests (current_window t store uid) < fst (tier_limits (get_user_tier uid))"
    by simp
  show ?thesis
    using assms lt by (auto simp: rate_limit_admits within_limits_def)
qed

lemma rate_limit_all_within:
  "within_limits store \<Longrightarrow> within_limits (rate_limit_all store rs)"
proof (induction rs arbitrary: store)
  case Nil
  then show ?case by simp
next
  case (Cons c rs)
  obtain t uid where c: "c = (t, uid)" by (cases c)
  show ?case unfolding c using Cons.prems by (simp add: Cons.IH rate_limit_within)
qed

lemma within_limits_empty: "within_limits Map.empty"
  by (simp add: within_limits_def)

lemma admitted_request_mutates:
  "fst (rate_limit t store uid) = Admitted \<Longrightarrow> snd (rate_limit t store uid) \<noteq> store"
proof
  assume adm: "fst (rate_limit t store uid) = Admitted"
     and same: "snd (rate_limit t store uid) = store"
  let ?r = "current_window t store uid"
  let ?m = "fst (tier_limits (get_user_tier uid))"
  have lt: "requests ?r < ?m"
  proof (rule ccontr)
    assume "\<not> requests ?r < ?m"
    then have "requests ?r \<ge> ?m" by simp
    then show False using adm by (simp add: rate_limit_rejects)
  qed
  then have eq: "store uid = Some (?r\<lparr>requests := requests ?r + 1\<rparr>)"
    using same by (simp add: rate_limit_admits) (metis fun_upd_same)
  show False
  proof (cases "store uid")
    case None
    with eq show False by simp
  next
    case (Some x)
    with eq have x: "x = ?r\<lparr>requests := requests ?r + 1\<rparr>" by simp
    have rx: "requests x = requests ?r + 1" by (subst x) simp
    have wx: "window_start x = window_start ?r" by (subst x) simp
    show False
    proof (cases "t - window_start x > 3600")
      case True
      then have "window_start ?r = t"
        using Some by (simp add: current_window_def Let_def tier_limits_window)
      with wx True show False by simp
    next
      case False
      then have "?r = x"
        using Some by (simp add: current_window_def Let_def tier_limits_window)
      with rx show False by simp
    qed
  qed
qed

lemma every_tier_rejects:
  "rate_limit t [uid \<mapsto> \<lparr>requests = fst (tier_limits (get_user_tier uid)), window_start = t\<rparr>] uid =
     (Limited (fst (tier_limits (get_user_tier uid))) (get_user_tier uid),
      [uid \<mapsto> \<lparr>requests = fst (tier_limits (get_user_tier uid)), window_start = t\<rparr>])"
  by (rule rate_limit_rejects) (simp add: current_window_def tier_limits_window)

subsection \<open>C8: the count stays within the limit of the tier\<close>

text \<open>
  C8: after any sequence of requests from the empty store, no stored count is above the
  limit of its user's tier; and at every request, when the count of the current window
  has reached the limit the request is refused and the store is not changed, otherwise
  the count of that window is incremented by one and the request is admitted.
\<close>

theorem rate_limit_quota:
  "within_limits (rate_limit_all Map.empty rs) \<and>
   (requests (current_window t store uid) \<ge> fst (tier_limits (get_user_tier uid)) \<longrightarrow>
      rate_limit t store uid =
        (Limited (fst (tier_limits (get_user_tier uid))) (get_user_tier uid), store)) \<and>
   (requests (current_window t store uid) < fst (tier_limits (get_user_tier uid)) \<longrightarrow>
      rate_limit t store uid =
        (Admitted, store(uid \<mapsto> (current_window t store uid)
                           \<lparr>requests := requests (current_window t store uid) + 1\<rparr>)))"
  by (simp add: rate_limit_all_within within_limits_empty rate_limit_rejects rate_limit_admits)

text \<open>
  The witness: user 1 is on the free tier, whose limit is 50. After one request the
  count is 1; with 50 counted the request is refused, with 49 counted it is admitted.
\<close>

theorem rate_limit_quota_witness:
  "requests \<lparr>requests = 1, window_start = 7\<rparr> \<le> fst (tier_limits (get_user_tier 1)) \<and>
   rate_limit 10 [1 \<mapsto> \<lparr>requests = 50, window_start = 7\<rparr>] 1 =
     (Limited 50 ''free'', [1 \<mapsto> \<lparr>requests = 50, window_start = 7\<rparr>]) \<and>
   rate_limit 10 [1 \<mapsto> \<lparr>requests = 49, window_start = 7\<rparr>] 1 =
     (Admitted, [1 \<mapsto> \<lparr>requests = 50, window_start = 7\<rparr>])"
proof -
  have run: "rate_limit_all Map.empty [(7, 1)] 1 = Some \<lparr>requests = 1, window_start = 7\<rparr>"
    by (simp add: rate_limit_def get_user_tier_def tier_limits_def Let_def)
  have cw50: "current_window 10 [1 \<mapsto> \<lparr>requests = 50, window_start = 7\<rparr>] 1 = \<lparr>requests = 50, window_start = 7\<rparr>"
    by (simp add: current_window_def get_user_tier_def tier_limits_def Let_def)
  have cw49: "current_window 10 [1 \<mapsto> \<lparr>requests = 49, window_start = 7\<rparr>] 1 = \<lparr>requests = 49, window_start = 7\<rparr>"
    by (simp add: current_window_def get_user_tier_def tier_limits_def Let_def)
  have lim: "fst (tier_limits ''free'') = 50" "get_user_tier 1 = ''free''"
    by (simp_all add: get_user_tier_def tier_limits_def)
  from rate_limit_quota [where rs = "[(7, 1)]" and t = 10 and uid = 1
      and store = "[1 \<mapsto> \<lparr>requests = 50, window_start = 7\<rparr>]"]
  have a: "within_limits (rate_limit_all Map.empty [(7, 1)])"
    and b: "rate_limit 10 [1 \<mapsto> \<lparr>requests = 50, window_start = 7\<rparr>] 1 =
     (Limited 50 ''free'', [1 \<mapsto> \<lparr>requests = 50, window_start = 7\<rparr>])"
    by (simp_all add: cw50 lim)
  from rate_limit_quota [where rs = "[(7, 1)]" and t = 10 and uid = 1
      and store = "[1 \<mapsto> \<lparr>requests = 49, window_start = 7\<rparr>]"]
  have c: "rate_limit 10 [1 \<mapsto> \<lparr>requests = 49, window_start = 7\<rparr>] 1 =
     (Admitted, [1 \<mapsto> \<lparr>requests = 50, window_start = 7\<rparr>])"
    by (simp add: cw49 lim)
  from a run have "requests \<lparr>requests = 1, window_start = 7\<rparr> \<le> fst (tier_limits (get_user_tier 1))"
    unfolding within_limits_def by blast
  with b c show ?thesis by blast
qed

subsection \<open>C5: no tier is without a limit\<close>

text \<open>
  C5: some tier is unlimited, always admitted and with the store left alone. The
  decorator has no such tier. User 2 has the tier \<open>admin\<close>, which the comment of
  line 98 says bypasses rate limiting: it gets the default limit of 10, its first
  request writes the store, and a request with 10 counted is refused. User 4 has the
  top tier \<open>enterprise\<close>: the same with a limit of 5000. In general every admitted
  request changes the store (\<open>admitted_request_mutates\<close>) and every user can be refused
  (\<open>every_tier_rejects\<close>).
\<close>

theorem no_tier_is_unlimited:
  "get_user_tier 2 = ''admin'' \<and>
   rate_limit 100 Map.empty 2 = (Admitted, [2 \<mapsto> \<lparr>requests = 1, window_start = 100\<rparr>]) \<and>
   rate_limit 200 [2 \<mapsto> \<lparr>requests = 10, window_start = 100\<rparr>] 2 =
     (Limited 10 ''admin'', [2 \<mapsto> \<lparr>requests = 10, window_start = 100\<rparr>]) \<and>
   get_user_tier 4 = ''enterprise'' \<and>
   rate_limit 100 Map.empty 4 = (Admitted, [4 \<mapsto> \<lparr>requests = 1, window_start = 100\<rparr>]) \<and>
   rate_limit 200 [4 \<mapsto> \<lparr>requests = 5000, window_start = 100\<rparr>] 4 =
     (Limited 5000 ''enterprise'', [4 \<mapsto> \<lparr>requests = 5000, window_start = 100\<rparr>])"
  by (simp add: rate_limit_def get_user_tier_def tier_limits_def Let_def)

section \<open>Properties of the dispatch route\<close>

lemmas route_defs = process_prompt_def process_prompt_body_def protected_call_def
  check_usage_limits_def db_get_user_tier_def track_usage_def insert_usage_def
  rate_limit_def get_user_tier_def tier_limits_def PROVIDERS_def initial_breakers_def
  CircuitBreaker_def dict_get_def error_handler_time_def

subsection \<open>Recording usage\<close>

lemma track_usage_returns: "fst (track_usage fault d row) = Inr ()"
  by (cases fault) (simp_all add: track_usage_def insert_usage_def)

lemma track_usage_table:
  "usage (snd (track_usage fault d row)) =
     (if fault = NoFault \<or> fault = CloseFails then usage d @ [row] else usage d)"
  by (cases fault) (simp_all add: track_usage_def insert_usage_def)

lemma tracked_append: "tracked (xs @ ys) = tracked xs @ tracked ys"
  by (induction xs rule: tracked.induct) simp_all

lemma tracked_replicate_call: "tracked (replicate n (ProviderCall pn)) = []"
  by (induction n) simp_all

lemma protected_call_tracks_nothing:
  "protected_call tm e cbs pn p = (res, cbs', evs) \<Longrightarrow> tracked evs = []"
  by (auto simp: protected_call_def Let_def tracked_append tracked_replicate_call
           split: option.splits sum.splits if_splits)

text \<open>A refused request leaves the store as it was.\<close>

lemma not_admitted_unchanged:
  assumes "fst (rate_limit t store uid) \<noteq> Admitted"
  shows "rate_limit t store uid =
     (Limited (fst (tier_limits (get_user_tier uid))) (get_user_tier uid), store)"
proof (cases "requests (current_window t store uid) \<ge> fst (tier_limits (get_user_tier uid))")
  case True
  then show ?thesis by (rule rate_limit_rejects)
next
  case False
  then have "rate_limit t store uid =
     (Admitted, store(uid \<mapsto> (current_window t store uid)
                        \<lparr>requests := requests (current_window t store uid) + 1\<rparr>))"
    by (intro rate_limit_admits) simp
  with assms show ?thesis by simp
qed

subsection \<open>After the provider step\<close>

text \<open>
  What the route does with the outcome of the provider step, for any outcome: a result
  is recorded once under the requested name and returned; an exception goes to
  \<open>handle_error\<close> and nothing is recorded.
\<close>

lemma route_after_provider_step:
  assumes "fst (rate_limit (now e) (rate_limit_store w) (user_id rq)) = Admitted"
      and "check_usage_limits (tier_fault e) (count_fault e) (month_start e) (db w) (user_id rq)"
      and "prompt rq \<noteq> []"
      and "pn = (case provider rq of None \<Rightarrow> ''openai'' | Some x \<Rightarrow> x)"
      and "pn \<in> set PROVIDERS"
  shows "(\<forall>result cbs pevs.
            protected_call tm e (circuit_breakers w) pn (prompt rq) = (Inr result, cbs, pevs) \<longrightarrow>
            fst (process_prompt tm e w rq) = Json result \<and>
            (\<exists>row. tracked (snd (snd (process_prompt tm e w rq))) = [row] \<and>
                   u_user_id row = user_id rq \<and> u_provider row = pn \<and>
                   u_status row = dict_get result ''status'' (Str ''error'') \<and>
                   usage (db (fst (snd (process_prompt tm e w rq)))) =
                     (if track_fault e = NoFault \<or> track_fault e = CloseFails
                      then usage (db w) @ [row] else usage (db w)))) \<and>
         (\<forall>ex cbs pevs.
            protected_call tm e (circuit_breakers w) pn (prompt rq) = (Inl ex, cbs, pevs) \<longrightarrow>
            fst (process_prompt tm e w rq) = HandledError ex \<and>
            tracked (snd (snd (process_prompt tm e w rq))) = [] \<and>
            db (fst (snd (process_prompt tm e w rq))) = db w)"
proof -
  obtain s where rl: "rate_limit (now e) (rate_limit_store w) (user_id rq) = (Admitted, s)"
    using assms(1) by (cases "rate_limit (now e) (rate_limit_store w) (user_id rq)") simp
  have body: "process_prompt tm e w rq = process_prompt_body tm e (w\<lparr>rate_limit_store := s\<rparr>) rq"
    by (simp add: process_prompt_def rl)
  show ?thesis
  proof (intro conjI allI impI)
    fix result cbs pevs
    assume pc: "protected_call tm e (circuit_breakers w) pn (prompt rq) = (Inr result, cbs, pevs)"
    then have nt: "tracked pevs = []" by (rule protected_call_tracks_nothing)
    show "fst (process_prompt tm e w rq) = Json result"
      using assms(2-5) pc by (simp add: body process_prompt_body_def Let_def)
    show "\<exists>row. tracked (snd (snd (process_prompt tm e w rq))) = [row] \<and>
                   u_user_id row = user_id rq \<and> u_provider row = pn \<and>
                   u_status row = dict_get result ''status'' (Str ''error'') \<and>
                   usage (db (fst (snd (process_prompt tm e w rq)))) =
                     (if track_fault e = NoFault \<or> track_fault e = CloseFails
                      then usage (db w) @ [row] else usage (db w))"
      using assms(2-5) pc nt
      by (simp add: body process_prompt_body_def Let_def tracked_append track_usage_table)
  next
    fix ex cbs pevs
    assume pc: "protected_call tm e (circuit_breakers w) pn (prompt rq) = (Inl ex, cbs, pevs)"
    then have nt: "tracked pevs = []" by (rule protected_call_tracks_nothing)
    show "fst (process_prompt tm e w rq) = HandledError ex"
      using assms(2-5) pc by (simp add: body process_prompt_body_def Let_def)
    show "tracked (snd (snd (process_prompt tm e w rq))) = []"
      using assms(2-5) pc nt by (simp add: body process_prompt_body_def Let_def)
    show "db (fst (snd (process_prompt tm e w rq))) = db w"
      using assms(2-5) pc by (simp add: body process_prompt_body_def Let_def)
  qed
qed

subsection \<open>The breakers of the running application\<close>

text \<open>
  The breakers are created closed, and with \<open>time\<close> unbound no request changes the
  state of any of them: in every run of the module as written all breakers are closed.
  From there, and with \<open>openai\<close> returning a dictionary, the provider step always ends
  with a result: that of the requested provider, or that of \<open>openai\<close> when the call of
  the requested provider raises.
\<close>

lemma all_closed_update:
  "all_closed cbs \<Longrightarrow> state b = Closed \<Longrightarrow> all_closed (cbs(pn \<mapsto> b))"
  by (auto simp: all_closed_def)

lemma all_closed_initial: "all_closed initial_breakers"
  by (simp add: all_closed_def initial_breakers_def PROVIDERS_def CircuitBreaker_def)

lemma protected_call_keeps_closed:
  assumes "all_closed cbs" and "pn \<in> set PROVIDERS"
  shows "all_closed (fst (snd (protected_call None e cbs pn p)))"
proof -
  have oin: "''openai'' \<in> set PROVIDERS" by (simp add: PROVIDERS_def)
  from assms obtain b where b: "cbs pn = Some b" "state b = Closed"
    by (auto simp: all_closed_def)
  let ?x1 = "execute None b (provider_process e pn p)"
  let ?cbs1 = "cbs(pn \<mapsto> breaker ?x1)"
  have s1: "state (breaker ?x1) = Closed"
    using b(2) by (rule execute_unbound_closed_stays)
  have c1: "all_closed ?cbs1"
    using assms(1) s1 by (rule all_closed_update)
  then obtain ob where ob: "?cbs1 ''openai'' = Some ob" "state ob = Closed"
    using oin unfolding all_closed_def by blast
  let ?x2 = "execute None ob (provider_process e ''openai'' p)"
  have s2: "state (breaker ?x2) = Closed"
    using ob(2) by (rule execute_unbound_closed_stays)
  have c2: "all_closed (?cbs1(''openai'' \<mapsto> breaker ?x2))"
    using c1 s2 by (rule all_closed_update)
  show ?thesis
  proof (cases "outcome ?x1")
    case (Inr result)
    then show ?thesis using b(1) c1 by (simp add: protected_call_def Let_def)
  next
    case (Inl ex)
    show ?thesis
    proof (cases "pn = ''openai''")
      case True
      then show ?thesis using b(1) Inl c1 by (simp add: protected_call_def Let_def)
    next
      case False
      then have "cbs ''openai'' = Some ob" using ob(1) by simp
      then show ?thesis using b(1) Inl c2 False by (simp add: protected_call_def Let_def)
    qed
  qed
qed

lemma process_prompt_keeps_closed:
  assumes "all_closed (circuit_breakers w)"
  shows "all_closed (circuit_breakers (fst (snd (process_prompt (error_handler_time t) e w rq))))"
proof -
  have pc: "\<forall>pn \<in> set PROVIDERS.
      all_closed (fst (snd (protected_call None e (circuit_breakers w) pn (prompt rq))))"
    using assms by (simp add: protected_call_keeps_closed)
  show ?thesis
    using assms pc
    by (auto simp: process_prompt_def process_prompt_body_def error_handler_time_def Let_def
             split: prod.splits verdict.splits sum.splits option.splits)
qed

lemma provider_step_unbound:
  assumes "all_closed cbs" and "pn \<in> set PROVIDERS"
      and "provider_process e ''openai'' p = Inr ro"
  shows "fst (protected_call None e cbs pn p) =
           Inr (case provider_process e pn p of Inr r \<Rightarrow> r | Inl ex \<Rightarrow> ro)"
proof -
  have oin: "''openai'' \<in> set PROVIDERS" by (simp add: PROVIDERS_def)
  from assms(1,2) obtain b where b: "cbs pn = Some b" "state b = Closed"
    by (auto simp: all_closed_def)
  from assms(1) oin obtain ob where ob: "cbs ''openai'' = Some ob" "state ob = Closed"
    unfolding all_closed_def by blast
  show ?thesis
  proof (cases "provider_process e pn p")
    case (Inr r)
    then show ?thesis
      using b by (simp add: protected_call_def Let_def execute_closed_success)
  next
    case (Inl ex)
    with assms(3) have ne: "pn \<noteq> ''openai''" by auto
    have nopen: "state b \<noteq> Open" using b(2) by simp
    show ?thesis
      using b ob ne Inl assms(3)
      by (simp add: protected_call_def Let_def execute_failure_unbound [OF nopen]
            execute_closed_success)
  qed
qed

subsection \<open>C10: recording never raises\<close>

text \<open>
  C10: \<open>track_usage\<close> never raises, whatever the database does, and a failure of the
  recording changes neither the response of the route nor what the route calls.
\<close>

theorem track_usage_never_raises:
  "fst (track_usage fault d row) = Inr () \<and>
   fst (process_prompt tm (e\<lparr>track_fault := fault\<rparr>) w rq) = fst (process_prompt tm e w rq) \<and>
   snd (snd (process_prompt tm (e\<lparr>track_fault := fault\<rparr>) w rq)) = snd (snd (process_prompt tm e w rq))"
  by (simp add: track_usage_returns process_prompt_def process_prompt_body_def protected_call_def
        Let_def split: prod.splits verdict.splits sum.splits option.splits)

subsection \<open>C1: an open breaker and the fallback\<close>




subsection \<open>C3: when usage is recorded\<close>

text \<open>
  C3 as stated fails. User 3 asks for \<open>openai\<close>, all breakers closed, the providers as
  the modules define them; \<open>openai\<close> answers. The commit of \<open>track_usage\<close> fails, say
  on a locked database: the failure is swallowed (line 55), the response is the same,
  and no usage row has been written.
\<close>

theorem usage_row_lost_counterexample:
  "providers_as_written
     \<lparr>now = 110, month_start = 0, tier_fault = NoFault, count_fault = NoFault,
      track_fault = CommitFails,
      provider_process = (\<lambda>pn p.
        if pn = ''hunter'' then Inl (Exn AttributeError ''HunterProvider object has no attribute process'')
        else if pn = ''github'' then Inl (Exn AttributeError ''GitHubProvider object has no attribute process'')
        else Inr [(''text'', Str ''ok''), (''model'', Str ''default''), (''provider'', Str pn),
                  (''response_time'', Num 1), (''status'', Str ''success'')])\<rparr> \<and>
   all_closed initial_breakers \<and>
   process_prompt (error_handler_time 110)
     \<lparr>now = 110, month_start = 0, tier_fault = NoFault, count_fault = NoFault,
      track_fault = CommitFails,
      provider_process = (\<lambda>pn p.
        if pn = ''hunter'' then Inl (Exn AttributeError ''HunterProvider object has no attribute process'')
        else if pn = ''github'' then Inl (Exn AttributeError ''GitHubProvider object has no attribute process'')
        else Inr [(''text'', Str ''ok''), (''model'', Str ''default''), (''provider'', Str pn),
                  (''response_time'', Num 1), (''status'', Str ''success'')])\<rparr>
     \<lparr>rate_limit_store = Map.empty, circuit_breakers = initial_breakers,
      db = \<lparr>users = [3 \<mapsto> ''pro''], usage = []\<rparr>\<rparr>
     \<lparr>user_id = 3, prompt = ''hello'', provider = Some ''openai''\<rparr>
   = (Json [(''text'', Str ''ok''), (''model'', Str ''default''), (''provider'', Str ''openai''),
            (''response_time'', Num 1), (''status'', Str ''success'')],
      \<lparr>rate_limit_store = [3 \<mapsto> \<lparr>requests = 1, window_start = 110\<rparr>],
       circuit_breakers = initial_breakers,
       db = \<lparr>users = [3 \<mapsto> ''pro''], usage = []\<rparr>\<rparr>,
      [ProviderCall ''openai'',
       TrackUsage \<lparr>u_user_id = 3, u_provider = ''openai'', u_endpoint = ''process'',
                   u_timestamp = 110, u_response_time = Num 1, u_status = Str ''success'',
                   u_tokens = None\<rparr>])"
proof (intro conjI)
  show "all_closed initial_breakers" by (rule all_closed_initial)
qed (simp_all add: providers_as_written_def route_defs exec_defs)

text \<open>
  C3, amended: for every request that reaches the provider step in the running
  application (all breakers closed, the providers as the modules define them), the
  route returns a result, that of the requested provider or, when its call raises,
  that of \<open>openai\<close>; \<open>track_usage\<close> is called exactly once, with the provider
  requested and the status of that result; and exactly one row is written, unless the
  write fails before its commit has returned, when the failure is swallowed and no row
  is written. So when the requested call raises and \<open>openai\<close> returns an error
  dictionary, that error is returned and recorded once under the requested name.
\<close>

theorem usage_tracked_once:
  assumes "fst (rate_limit (now e) (rate_limit_store w) (user_id rq)) = Admitted"
      and "check_usage_limits (tier_fault e) (count_fault e) (month_start e) (db w) (user_id rq)"
      and "prompt rq \<noteq> []"
      and "pn = (case provider rq of None \<Rightarrow> ''openai'' | Some x \<Rightarrow> x)"
      and "pn \<in> set PROVIDERS"
      and "all_closed (circuit_breakers w)"
      and "providers_as_written e"
  shows "\<exists>result row.
           fst (process_prompt (error_handler_time (now e)) e w rq) = Json result \<and>
           (provider_process e pn (prompt rq) = Inr result \<or>
            (\<exists>ex. provider_process e pn (prompt rq) = Inl ex) \<and>
            provider_process e ''openai'' (prompt rq) = Inr result) \<and>
           tracked (snd (snd (process_prompt (error_handler_time (now e)) e w rq))) = [row] \<and>
           u_user_id row = user_id rq \<and> u_provider row = pn \<and>
           u_status row = dict_get result ''status'' (Str ''error'') \<and>
           usage (db (fst (snd (process_prompt (error_handler_time (now e)) e w rq)))) =
             (if track_fault e = NoFault \<or> track_fault e = CloseFails
              then usage (db w) @ [row] else usage (db w))"
proof -
  let ?tm = "error_handler_time (now e)"
  have tm: "?tm = None" by (simp add: error_handler_time_def)
  from assms(7) obtain ro where ro: "provider_process e ''openai'' (prompt rq) = Inr ro"
    unfolding providers_as_written_def by blast
  let ?result = "case provider_process e pn (prompt rq) of Inr r \<Rightarrow> r | Inl ex \<Rightarrow> ro"
  have step: "fst (protected_call ?tm e (circuit_breakers w) pn (prompt rq)) = Inr ?result"
    unfolding tm using assms(6) assms(5) ro by (rule provider_step_unbound)
  then obtain cbs pevs where
    pc: "protected_call ?tm e (circuit_breakers w) pn (prompt rq) = (Inr ?result, cbs, pevs)"
    by (cases "protected_call ?tm e (circuit_breakers w) pn (prompt rq)") simp
  have src: "provider_process e pn (prompt rq) = Inr ?result \<or>
            (\<exists>ex. provider_process e pn (prompt rq) = Inl ex) \<and>
            provider_process e ''openai'' (prompt rq) = Inr ?result"
    using ro by (cases "provider_process e pn (prompt rq)") simp_all
  from route_after_provider_step [OF assms(1-5), of ?tm] pc
  have resp: "fst (process_prompt ?tm e w rq) = Json ?result"
    and rec: "\<exists>row. tracked (snd (snd (process_prompt ?tm e w rq))) = [row] \<and>
                   u_user_id row = user_id rq \<and> u_provider row = pn \<and>
                   u_status row = dict_get ?result ''status'' (Str ''error'') \<and>
                   usage (db (fst (snd (process_prompt ?tm e w rq)))) =
                     (if track_fault e = NoFault \<or> track_fault e = CloseFails
                      then usage (db w) @ [row] else usage (db w))"
    by blast+
  from rec obtain row where row:
      "tracked (snd (snd (process_prompt ?tm e w rq))) = [row]"
      "u_user_id row = user_id rq" "u_provider row = pn"
      "u_status row = dict_get ?result ''status'' (Str ''error'')"
      "usage (db (fst (snd (process_prompt ?tm e w rq)))) =
         (if track_fault e = NoFault \<or> track_fault e = CloseFails
          then usage (db w) @ [row] else usage (db w))"
    by blast
  show ?thesis
    using resp src row by blast
qed

text \<open>
  The witness: user 3 asks for \<open>hunter\<close>, whose call raises, and \<open>openai\<close> returns an
  error dictionary: it is returned, and one row is written, for \<open>hunter\<close>, with status
  \<open>error\<close>.
\<close>

theorem usage_tracked_once_witness:
  "fst (process_prompt (error_handler_time 110)
     \<lparr>now = 110, month_start = 0, tier_fault = NoFault, count_fault = NoFault,
      track_fault = NoFault,
      provider_process = (\<lambda>pn p.
        if pn = ''hunter'' then Inl (Exn AttributeError ''HunterProvider object has no attribute process'')
        else if pn = ''github'' then Inl (Exn AttributeError ''GitHubProvider object has no attribute process'')
        else Inr [(''error'', Str ''Request timed out after 10 seconds''), (''provider'', Str pn),
                  (''status'', Str ''error''), (''response_time'', Num 10)])\<rparr>
     \<lparr>rate_limit_store = Map.empty, circuit_breakers = initial_breakers,
      db = \<lparr>users = [3 \<mapsto> ''pro''], usage = []\<rparr>\<rparr>
     \<lparr>user_id = 3, prompt = ''hello'', provider = Some ''hunter''\<rparr>)
   = Json [(''error'', Str ''Request timed out after 10 seconds''), (''provider'', Str ''openai''),
           (''status'', Str ''error''), (''response_time'', Num 10)] \<and>
   map u_provider (tracked (snd (snd (process_prompt (error_handler_time 110)
     \<lparr>now = 110, month_start = 0, tier_fault = NoFault, count_fault = NoFault,
      track_fault = NoFault,
      provider_process = (\<lambda>pn p.
        if pn = ''hunter'' then Inl (Exn AttributeError ''HunterProvider object has no attribute process'')
        else if pn = ''github'' then Inl (Exn AttributeError ''GitHubProvider object has no attribute process'')
        else Inr [(''error'', Str ''Request timed out after 10 seconds''), (''provider'', Str pn),
                  (''status'', Str ''error''), (''response_time'', Num 10)])\<rparr>
     \<lparr>rate_limit_store = Map.empty, circuit_breakers = initial_breakers,
      db = \<lparr>users = [3 \<mapsto> ''pro''], usage = []\<rparr>\<rparr>
     \<lparr>user_id = 3, prompt = ''hello'', provider = Some ''hunter''\<rparr>)))) = [''hunter''] \<and>
   map u_status (usage (db (fst (snd (process_prompt (error_handler_time 110)
     \<lparr>now = 110, month_start = 0, tier_fault = NoFault, count_fault = NoFault,
      track_fault = NoFault,
      provider_process = (\<lambda>pn p.
        if pn = ''hunter'' then Inl (Exn AttributeError ''HunterProvider object has no attribute process'')
        else if pn = ''github'' then Inl (Exn AttributeError ''GitHubProvider object has no attribute process'')
        else Inr [(''error'', Str ''Request timed out after 10 seconds''), (''provider'', Str pn),
                  (''status'', Str ''error''), (''response_time'', Num 10)])\<rparr>
     \<lparr>rate_limit_store = Map.empty, circuit_breakers = initial_breakers,
      db = \<lparr>users = [3 \<mapsto> ''pro''], usage = []\<rparr>\<rparr>
     \<lparr>user_id = 3, prompt = ''hello'', provider = Some ''hunter''\<rparr>))))) = [Str ''error'']"
proof -
  let ?e = "\<lparr>now = 110, month_start = 0, tier_fault = NoFault, count_fault = NoFault,
      track_fault = NoFault,
      provider_process = (\<lambda>pn p.
        if pn = ''hunter'' then Inl (Exn AttributeError ''HunterProvider object has no attribute process'')
        else if pn = ''github'' then Inl (Exn AttributeError ''GitHubProvider object has no attribute process'')
        else Inr [(''error'', Str ''Request timed out after 10 seconds''), (''provider'', Str pn),
                  (''status'', Str ''error''), (''response_time'', Num 10)])\<rparr>"
  let ?w = "\<lparr>rate_limit_store = Map.empty, circuit_breakers = initial_breakers,
      db = \<lparr>users = [3 \<mapsto> ''pro''], usage = []\<rparr>\<rparr>"
  let ?rq = "\<lparr>user_id = 3, prompt = ''hello'', provider = Some ''hunter''\<rparr>"
  let ?run = "process_prompt (error_handler_time (now ?e)) ?e ?w ?rq"
  have adm: "fst (rate_limit (now ?e) (rate_limit_store ?w) (user_id ?rq)) = Admitted"
    by (simp add: rate_limit_def get_user_tier_def tier_limits_def Let_def)
  have gate: "check_usage_limits (tier_fault ?e) (count_fault ?e) (month_start ?e) (db ?w) (user_id ?rq)"
    by (simp add: check_usage_limits_def db_get_user_tier_def)
  have pr: "prompt ?rq \<noteq> []" by simp
  have pn: "''hunter'' = (case provider ?rq of None \<Rightarrow> ''openai'' | Some x \<Rightarrow> x)" by simp
  have pin: "''hunter'' \<in> set PROVIDERS" by (simp add: PROVIDERS_def)
  have closed: "all_closed (circuit_breakers ?w)" by (simp add: all_closed_initial)
  have src: "providers_as_written ?e" by (simp add: providers_as_written_def)
  from usage_tracked_once [OF adm gate pr pn pin closed src]
  obtain result row where
        resp: "fst ?run = Json result"
    and from_src: "provider_process ?e ''hunter'' (prompt ?rq) = Inr result \<or>
            (\<exists>ex. provider_process ?e ''hunter'' (prompt ?rq) = Inl ex) \<and>
            provider_process ?e ''openai'' (prompt ?rq) = Inr result"
    and tr: "tracked (snd (snd ?run)) = [row]"
    and rowp: "u_provider row = ''hunter''"
    and rows: "u_status row = dict_get result ''status'' (Str ''error'')"
    and tbl: "usage (db (fst (snd ?run))) =
             (if track_fault ?e = NoFault \<or> track_fault ?e = CloseFails
              then usage (db ?w) @ [row] else usage (db ?w))"
    by blast
  from from_src have result: "result = [(''error'', Str ''Request timed out after 10 seconds''),
      (''provider'', Str ''openai''), (''status'', Str ''error''), (''response_time'', Num 10)]"
    by simp
  have st: "u_status row = Str ''error''"
    using rows by (simp add: result dict_get_def)
  from resp result tr rowp tbl st show ?thesis by simp
qed

subsection \<open>C4: the monthly gate comes after the rate limiter\<close>

text \<open>
  C4 as stated fails. User 1 is on the free tier with 50 rows this month, so the gate
  refuses; the entry of the user in the rate-limit store has been created and counted
  before that, by the decorator.
\<close>

theorem usage_gate_after_limiter_counterexample:
  "\<not> check_usage_limits NoFault NoFault 0
       \<lparr>users = [1 \<mapsto> ''free''],
        usage = replicate 50 \<lparr>u_user_id = 1, u_provider = ''openai'', u_endpoint = ''process'',
                  u_timestamp = 5, u_response_time = Num 1, u_status = Str ''success'',
                  u_tokens = None\<rparr>\<rparr> 1 \<and>
   process_prompt (error_handler_time 110)
     \<lparr>now = 110, month_start = 0, tier_fault = NoFault, count_fault = NoFault, track_fault = NoFault,
      provider_process = (\<lambda>pn p. Inr [(''status'', Str ''success'')])\<rparr>
     \<lparr>rate_limit_store = Map.empty, circuit_breakers = initial_breakers,
      db = \<lparr>users = [1 \<mapsto> ''free''],
             usage = replicate 50 \<lparr>u_user_id = 1, u_provider = ''openai'', u_endpoint = ''process'',
                  u_timestamp = 5, u_response_time = Num 1, u_status = Str ''success'',
                  u_tokens = None\<rparr>\<rparr>\<rparr>
     \<lparr>user_id = 1, prompt = ''hello'', provider = Some ''openai''\<rparr>
   = (UsageLimitExceeded,
      \<lparr>rate_limit_store = [1 \<mapsto> \<lparr>requests = 1, window_start = 110\<rparr>],
       circuit_breakers = initial_breakers,
       db = \<lparr>users = [1 \<mapsto> ''free''],
             usage = replicate 50 \<lparr>u_user_id = 1, u_provider = ''openai'', u_endpoint = ''process'',
                  u_timestamp = 5, u_response_time = Num 1, u_status = Str ''success'',
                  u_tokens = None\<rparr>\<rparr>\<rparr>,
      []) \<and>
   [1 \<mapsto> \<lparr>requests = 1, window_start = 110\<rparr>] \<noteq> (Map.empty :: rate_limit_store)"
  by (simp add: process_prompt_def process_prompt_body_def check_usage_limits_def
        db_get_user_tier_def rate_limit_def get_user_tier_def tier_limits_def Let_def)

text \<open>
  C4, amended: for every request for which the monthly gate reports the user over the
  limit, when the rate limiter admits the request the route fails with the
  usage-exceeded response, without a provider call, a breaker change, a database
  change or a \<open>track_usage\<close> call, and the rate-limit entry of the user has been
  updated by the admission; when the rate limiter refuses, the route fails with the
  rate-limit response and nothing at all is changed.
\<close>

theorem usage_gate_after_limiter:
  assumes "\<not> check_usage_limits (tier_fault e) (count_fault e) (month_start e) (db w) (user_id rq)"
  shows "(fst (rate_limit (now e) (rate_limit_store w) (user_id rq)) = Admitted \<longrightarrow>
            process_prompt tm e w rq =
              (UsageLimitExceeded,
               w\<lparr>rate_limit_store := snd (rate_limit (now e) (rate_limit_store w) (user_id rq))\<rparr>,
               []) \<and>
            snd (rate_limit (now e) (rate_limit_store w) (user_id rq)) \<noteq> rate_limit_store w) \<and>
         (fst (rate_limit (now e) (rate_limit_store w) (user_id rq)) \<noteq> Admitted \<longrightarrow>
            process_prompt tm e w rq =
              (RateLimitExceeded (fst (tier_limits (get_user_tier (user_id rq))))
                 (get_user_tier (user_id rq)), w, []))"
proof (intro conjI impI)
  assume adm: "fst (rate_limit (now e) (rate_limit_store w) (user_id rq)) = Admitted"
  then obtain s where rl: "rate_limit (now e) (rate_limit_store w) (user_id rq) = (Admitted, s)"
    by (cases "rate_limit (now e) (rate_limit_store w) (user_id rq)") simp
  show "process_prompt tm e w rq =
          (UsageLimitExceeded,
           w\<lparr>rate_limit_store := snd (rate_limit (now e) (rate_limit_store w) (user_id rq))\<rparr>, [])"
    using assms by (simp add: process_prompt_def rl process_prompt_body_def)
  show "snd (rate_limit (now e) (rate_limit_store w) (user_id rq)) \<noteq> rate_limit_store w"
    using adm by (rule admitted_request_mutates)
next
  assume "fst (rate_limit (now e) (rate_limit_store w) (user_id rq)) \<noteq> Admitted"
  then have "rate_limit (now e) (rate_limit_store w) (user_id rq) =
      (Limited (fst (tier_limits (get_user_tier (user_id rq)))) (get_user_tier (user_id rq)),
       rate_limit_store w)"
    by (rule not_admitted_unchanged)
  then show "process_prompt tm e w rq =
              (RateLimitExceeded (fst (tier_limits (get_user_tier (user_id rq))))
                 (get_user_tier (user_id rq)), w, [])"
    by (simp add: process_prompt_def)
qed

text \<open>
  The witness: user 2 has the tier \<open>trial\<close> in the database, whose monthly limit is the
  default 10, and 10 rows this month. Admitted by the rate limiter, the request fails
  at the gate; with 10 requests counted in the window, it fails at the rate limiter.
\<close>

theorem usage_gate_after_limiter_witness:
  "\<not> check_usage_limits NoFault NoFault 0
       \<lparr>users = [2 \<mapsto> ''trial''],
        usage = replicate 10 \<lparr>u_user_id = 2, u_provider = ''openai'', u_endpoint = ''process'',
                  u_timestamp = 5, u_response_time = Num 1, u_status = Str ''success'',
                  u_tokens = None\<rparr>\<rparr> 2 \<and>
   fst (process_prompt (error_handler_time 110)
     \<lparr>now = 110, month_start = 0, tier_fault = NoFault, count_fault = NoFault, track_fault = NoFault,
      provider_process = (\<lambda>pn p. Inr [(''status'', Str ''success'')])\<rparr>
     \<lparr>rate_limit_store = Map.empty, circuit_breakers = initial_breakers,
      db = \<lparr>users = [2 \<mapsto> ''trial''],
             usage = replicate 10 \<lparr>u_user_id = 2, u_provider = ''openai'', u_endpoint = ''process'',
                  u_timestamp = 5, u_response_time = Num 1, u_status = Str ''success'',
                  u_tokens = None\<rparr>\<rparr>\<rparr>
     \<lparr>user_id = 2, prompt = ''hello'', provider = None\<rparr>) = UsageLimitExceeded \<and>
   fst (process_prompt (error_handler_time 110)
     \<lparr>now = 110, month_start = 0, tier_fault = NoFault, count_fault = NoFault, track_fault = NoFault,
      provider_process = (\<lambda>pn p. Inr [(''status'', Str ''success'')])\<rparr>
     \<lparr>rate_limit_store = [2 \<mapsto> \<lparr>requests = 10, window_start = 100\<rparr>],
      circuit_breakers = initial_breakers,
      db = \<lparr>users = [2 \<mapsto> ''trial''],
             usage = replicate 10 \<lparr>u_user_id = 2, u_provider = ''openai'', u_endpoint = ''process'',
                  u_timestamp = 5, u_response_time = Num 1, u_status = Str ''success'',
                  u_tokens = None\<rparr>\<rparr>\<rparr>
     \<lparr>user_id = 2, prompt = ''hello'', provider = None\<rparr>) = RateLimitExceeded 10 ''admin''"
proof -
  let ?row = "\<lparr>u_user_id = 2, u_provider = ''openai'', u_endpoint = ''process'',
                  u_timestamp = 5, u_response_time = Num 1, u_status = Str ''success'',
                  u_tokens = None\<rparr>"
  let ?d = "\<lparr>users = [2 \<mapsto> ''trial''], usage = replicate 10 ?row\<rparr>"
  let ?e = "\<lparr>now = 110, month_start = 0, tier_fault = NoFault, count_fault = NoFault,
             track_fault = NoFault,
             provider_process = (\<lambda>pn p. Inr [(''status'', Str ''success'')])\<rparr>"
  let ?w1 = "\<lparr>rate_limit_store = Map.empty, circuit_breakers = initial_breakers, db = ?d\<rparr>"
  let ?w2 = "\<lparr>rate_limit_store = [2 \<mapsto> \<lparr>requests = 10, window_start = 100\<rparr>],
              circuit_breakers = initial_breakers, db = ?d\<rparr>"
  let ?rq = "\<lparr>user_id = 2, prompt = ''hello'', provider = None\<rparr>"
  have gate: "\<not> check_usage_limits NoFault NoFault 0 ?d 2"
    by (simp add: check_usage_limits_def db_get_user_tier_def)
  have g1: "\<not> check_usage_limits (tier_fault ?e) (count_fault ?e) (month_start ?e) (db ?w1) (user_id ?rq)"
    using gate by simp
  have g2: "\<not> check_usage_limits (tier_fault ?e) (count_fault ?e) (month_start ?e) (db ?w2) (user_id ?rq)"
    using gate by simp
  have a1: "fst (rate_limit (now ?e) (rate_limit_store ?w1) (user_id ?rq)) = Admitted"
    by (simp add: rate_limit_def get_user_tier_def tier_limits_def Let_def)
  have a2: "fst (rate_limit (now ?e) (rate_limit_store ?w2) (user_id ?rq)) \<noteq> Admitted"
    by (simp add: rate_limit_def get_user_tier_def tier_limits_def Let_def)
  from usage_gate_after_limiter [OF g1, of "error_handler_time 110"] a1
  have r1: "fst (process_prompt (error_handler_time 110) ?e ?w1 ?rq) = UsageLimitExceeded"
    by (metis fst_conv)
  from usage_gate_after_limiter [OF g2, of "error_handler_time 110"] a2
  have "process_prompt (error_handler_time 110) ?e ?w2 ?rq =
          (RateLimitExceeded (fst (tier_limits (get_user_tier (user_id ?rq))))
                 (get_user_tier (user_id ?rq)), ?w2, [])"
    by blast
  then have r2: "fst (process_prompt (error_handler_time 110) ?e ?w2 ?rq) = RateLimitExceeded 10 ''admin''"
    by (simp add: get_user_tier_def tier_limits_def)
  from gate r1 r2 show ?thesis by blast
qed

end
